theory Spec2Isabelle
  imports Main
begin

section \<open>Data model\<close>

text \<open>
  The orchestrator of the chat application: \<open>chat.js\<close> (send, stream, regenerate) and
  \<open>image.js\<close> (image generation with fallback), with the helpers of \<open>utils.js\<close> and
  \<open>storage.js\<close> they call. JavaScript strings are \<open>string\<close>; the string-literal unions
  of the code (\<open>'user'|'ai'\<close>, \<open>'text'|'image'\<close>, \<open>'chat'|'image'\<close>) are datatypes.
  Rendering, logging and the write to \<open>localStorage\<close> do not touch \<open>STATE\<close> and are
  left out, but for \<open>UI.showTypingIndicator\<close>, which sets \<open>STATE.ui.isTyping\<close>. Toasts,
  outbound requests and the calls of \<open>UI.showTypingIndicator\<close> are recorded in the state
  so that theorems can speak about them.
\<close>

datatype role = User | Ai

datatype mtype = Text | Image

datatype mode = ChatMode | ImageMode

text \<open>
  A message object (\<open>msg_id\<close> is its \<open>id\<close>, \<open>mtype\<close> its \<open>type\<close>, \<open>msg_prompt\<close> its
  \<open>prompt\<close>). The fields \<open>prompt\<close>, \<open>error\<close> and \<open>errorMessage\<close> are absent from a
  freshly built message (\<open>None\<close> is JavaScript's \<open>undefined\<close>).
\<close>

record message =
  msg_id :: nat
  role :: role
  mtype :: mtype
  content :: string
  timestamp :: nat
  msg_prompt :: "string option"
  error :: "bool option"
  errorMessage :: "string option"

record conversation =
  conv_id :: nat
  title :: string
  messages :: "message list"
  lastUpdated :: nat

text \<open>
  \<open>STATE.settings\<close>. The code only tests \<open>openrouterKey\<close> and \<open>imageModel\<close> for
  truthiness; the empty string stands for every falsy value.
\<close>

record settings =
  openrouterKey :: string
  modelId :: string
  systemPrompt :: string
  imageProvider :: string
  imageModel :: string

text \<open>Outbound requests, as the arguments of \<open>fetch\<close> that the code builds.\<close>

datatype request =
    ChatCompletion string "(string \<times> string) list"
  | PollinationsFetch string
  | OpenRouterImage string string string

text \<open>
  \<open>STATE\<close>, with the text of the chat input field, the toasts shown so far, the requests
  issued so far, and the supply that \<open>crypto.randomUUID()\<close> draws from: identifiers are
  naturals, each call returns \<open>nextId\<close> and advances it.
  \<open>abortController\<close> is \<open>None\<close> for \<open>null\<close> and \<open>Some aborted\<close> for a controller.
  \<open>isTyping\<close> is \<open>STATE.ui.isTyping\<close>; \<open>indicatorCalls\<close> lists the arguments of the calls
  of \<open>UI.showTypingIndicator\<close> so far, oldest first.
\<close>

record state =
  conversations :: "conversation list"
  activeConversationId :: "nat option"
  isGenerating :: bool
  abortController :: "bool option"
  mode :: mode
  settings :: settings
  chatInput :: string
  toasts :: "(string \<times> string) list"
  requests :: "request list"
  nextId :: nat
  isTyping :: bool
  indicatorCalls :: "bool list"

text \<open>Thrown values: \<open>new Error(message)\<close> and the engine's \<open>TypeError\<close>.\<close>

datatype exn = Error string | TypeError string

fun message_of :: "exn \<Rightarrow> string" where
  "message_of (Error m) = m"
| "message_of (TypeError m) = m"

section \<open>The environment\<close>

text \<open>
  What the network answers. A rejected \<open>await\<close> carries the value of \<open>signal.aborted\<close>
  at the time the \<open>catch\<close> block runs (true when \<open>stopGenerating\<close> was called while the
  request was in flight) and the message of the thrown error.
\<close>

datatype error_body =
    JsonRejects string
  | ErrorData "string option"

datatype stream_end = Done | ReadRejects bool string

datatype chat_reply =
    FetchRejects bool string
  | NotOk bool error_body string
  | Streaming "string list" stream_end

datatype pollinations_reply =
    PFetchRejects string
  | PResponse bool string "string option"

datatype openrouter_reply =
    OFetchRejects string
  | ONotOk error_body string
  | OJsonRejects string
  | OData "string option"

text \<open>
  The platform and the two constants of \<open>APP_CONSTANTS\<close> the code reads, taken as
  parameters:
  \<open>deltaOf jsonStr\<close> is \<open>JSON.parse(jsonStr).choices[0]?.delta?.content || ''\<close>, with
  \<open>None\<close> when that expression throws; \<open>sqliPattern\<close> says whether one of the regular
  expressions of \<open>sanitizeInput\<close> matches; \<open>escapeHTML\<close> and \<open>encodeURIComponent\<close> are
  the browser's; \<open>now\<close> is the reading of \<open>Date.now()\<close>, one value for the whole run
  (it only fills \<open>timestamp\<close> and \<open>lastUpdated\<close>).
\<close>

record env =
  now :: nat
  deltaOf :: "string \<Rightarrow> string option"
  sqliPattern :: "string \<Rightarrow> bool"
  escapeHTML :: "string \<Rightarrow> string"
  encodeURIComponent :: "string \<Rightarrow> string"
  IMAGE_DEFAULT_SIZE :: string
  CONVERSATION_TITLE_MAX_LENGTH :: nat
  chatReply :: chat_reply
  pollinationsReply :: pollinations_reply
  openrouterReply :: openrouter_reply

section \<open>String helpers\<close>

definition nl :: char where
  "nl = CHR 0x0A"

definition startsWith :: "string \<Rightarrow> string \<Rightarrow> bool" where
  "startsWith s p = (take (length p) s = p)"

text \<open>
  \<open>String.prototype.split\<close> with a non-empty separator: the pieces between the
  occurrences of the separator, found from left to right without overlap.
\<close>

function splitOn :: "string \<Rightarrow> string \<Rightarrow> string \<Rightarrow> string list" where
  "splitOn sep acc [] = [acc]"
| "splitOn sep acc (c # cs) =
     (if sep \<noteq> [] \<and> take (length sep) (c # cs) = sep
      then acc # splitOn sep [] (drop (length sep) (c # cs))
      else splitOn sep (acc @ [c]) cs)"
  by pat_completeness auto
termination
  by (relation "measure (\<lambda>(sep, acc, s). length s)") auto

definition split :: "string \<Rightarrow> string \<Rightarrow> string list" where
  "split s sep = splitOn sep [] s"

text \<open>White space of \<open>String.prototype.trim\<close> among the code units below 256.\<close>

definition isWhiteSpace :: "char \<Rightarrow> bool" where
  "isWhiteSpace c =
     (c = CHR 0x20 \<or> c = CHR 0x09 \<or> c = CHR 0x0A \<or> c = CHR 0x0B \<or> c = CHR 0x0C
      \<or> c = CHR 0x0D \<or> c = CHR 0xA0)"

definition trim :: "string \<Rightarrow> string" where
  "trim s = rev (dropWhile isWhiteSpace (rev (dropWhile isWhiteSpace s)))"

text \<open>\<open>truncateText\<close> of \<open>utils.js\<close>.\<close>

definition truncateText :: "string \<Rightarrow> nat \<Rightarrow> string" where
  "truncateText str maxLength =
     (if length str \<le> maxLength then str else take (maxLength - 3) str @ ''...'')"

section \<open>Array helpers\<close>

fun findIndex :: "('a \<Rightarrow> bool) \<Rightarrow> 'a list \<Rightarrow> nat option" where
  "findIndex P [] = None"
| "findIndex P (x # xs) =
     (if P x then Some 0 else map_option Suc (findIndex P xs))"

text \<open>
  \<open>find\<close> returns a reference, and the code mutates the object it refers to: the first
  element that satisfies the predicate is the one changed.
\<close>

fun updFirst :: "('a \<Rightarrow> bool) \<Rightarrow> ('a \<Rightarrow> 'a) \<Rightarrow> 'a list \<Rightarrow> 'a list" where
  "updFirst P f [] = []"
| "updFirst P f (x # xs) = (if P x then f x # xs else x # updFirst P f xs)"

text \<open>\<open>splice(i, 1)\<close>.\<close>

definition splice1 :: "nat \<Rightarrow> 'a list \<Rightarrow> 'a list" where
  "splice1 i xs = take i xs @ drop (Suc i) xs"

section \<open>Message store\<close>

definition showToast :: "string \<Rightarrow> string \<Rightarrow> state \<Rightarrow> state" where
  "showToast type msg st = st\<lparr>toasts := toasts st @ [(type, msg)]\<rparr>"

text \<open>
  \<open>UI.showTypingIndicator\<close>: it sets \<open>STATE.ui.isTyping\<close> and shows or hides the indicator
  element.
\<close>

definition showTypingIndicator :: "bool \<Rightarrow> state \<Rightarrow> state" where
  "showTypingIndicator shown st =
     st\<lparr>isTyping := shown, indicatorCalls := indicatorCalls st @ [shown]\<rparr>"

definition isActive :: "state \<Rightarrow> conversation \<Rightarrow> bool" where
  "isActive st c = (activeConversationId st = Some (conv_id c))"

text \<open>\<open>STATE.conversations.find(c => c.id === STATE.ui.activeConversationId)\<close>.\<close>

definition activeConv :: "state \<Rightarrow> conversation option" where
  "activeConv st = find (isActive st) (conversations st)"

definition activeMessages :: "state \<Rightarrow> message list" where
  "activeMessages st = (case activeConv st of None \<Rightarrow> [] | Some c \<Rightarrow> messages c)"

definition updActive :: "(conversation \<Rightarrow> conversation) \<Rightarrow> state \<Rightarrow> state" where
  "updActive f st = st\<lparr>conversations := updFirst (isActive st) f (conversations st)\<rparr>"

definition mkMessage :: "nat \<Rightarrow> role \<Rightarrow> string \<Rightarrow> nat \<Rightarrow> message" where
  "mkMessage i r c ts =
     \<lparr>msg_id = i, role = r, mtype = Text, content = c, timestamp = ts,
      msg_prompt = None, error = None, errorMessage = None\<rparr>"

definition startNewConversation :: "env \<Rightarrow> string \<Rightarrow> state \<Rightarrow> state" where
  "startNewConversation e initialPrompt st =
     (let newConversation =
            \<lparr>conv_id = nextId st,
             title = truncateText initialPrompt (CONVERSATION_TITLE_MAX_LENGTH e),
             messages = [], lastUpdated = now e\<rparr>
      in st\<lparr>conversations := newConversation # conversations st,
            activeConversationId := Some (conv_id newConversation),
            nextId := Suc (nextId st)\<rparr>)"

definition addMessageToConversation :: "env \<Rightarrow> message \<Rightarrow> state \<Rightarrow> state" where
  "addMessageToConversation e message st =
     (let st1 = (case activeConv st of
                   None \<Rightarrow> startNewConversation e
                             (if mtype message = Text then content message
                              else ''Image Generation'') st
                 | Some c \<Rightarrow> st)
      in case activeConv st1 of
           None \<Rightarrow> showToast ''error'' ''Failed to start conversation.'' st1
         | Some c \<Rightarrow>
             updActive (\<lambda>c. c\<lparr>messages := messages c @ [message],
                              lastUpdated := now e\<rparr>) st1)"

definition updateLastMessageContent ::
  "env \<Rightarrow> nat \<Rightarrow> string \<Rightarrow> bool \<Rightarrow> string \<Rightarrow> state \<Rightarrow> state" where
  "updateLastMessageContent e messageId newContent isError errMsg st =
     (case activeConv st of
        None \<Rightarrow> st
      | Some c \<Rightarrow>
          (case findIndex (\<lambda>m. msg_id m = messageId) (messages c) of
             None \<Rightarrow> st
           | Some i \<Rightarrow>
               updActive (\<lambda>c. c\<lparr>messages := (messages c)
                                  [i := (messages c ! i)\<lparr>content := newContent,
                                           error := Some isError,
                                           errorMessage := Some errMsg\<rparr>],
                                lastUpdated := now e\<rparr>) st))"

section \<open>Stream decoding\<close>

text \<open>
  The body of the \<open>forEach\<close> callback of \<open>sendChatMessage\<close>, up to the decision whether
  a delta is appended: a part that starts with \<open>data: \<close>, whose payload is not
  \<open>[DONE]\<close>, parses, and has a truthy incremental content yields that content.
\<close>

definition partDelta :: "env \<Rightarrow> string \<Rightarrow> string option" where
  "partDelta e part =
     (if startsWith part ''data: '' then
        (let jsonStr = drop 6 part in
         if jsonStr = ''[DONE]'' then None
         else (case deltaOf e jsonStr of
                 None \<Rightarrow> None
               | Some delta \<Rightarrow> if delta \<noteq> [] then Some delta else None))
      else None)"

text \<open>
  One run of the callback: the accumulator \<open>aiMessageContent\<close> grows by the delta and
  the target message is patched with the accumulator's value.
\<close>

definition onPart :: "env \<Rightarrow> nat \<Rightarrow> string \<Rightarrow> string \<times> state \<Rightarrow> string \<times> state" where
  "onPart e aiMessageId part p =
     (case partDelta e part of
        None \<Rightarrow> p
      | Some delta \<Rightarrow>
          (fst p @ delta,
           updateLastMessageContent e aiMessageId (fst p @ delta) False [] (snd p)))"

text \<open>\<open>chunk.split('\n\n').forEach(...)\<close>, one iteration of the \<open>while\<close> loop.\<close>

definition onChunk :: "env \<Rightarrow> nat \<Rightarrow> string \<Rightarrow> string \<times> state \<Rightarrow> string \<times> state" where
  "onChunk e aiMessageId chunk p = fold (onPart e aiMessageId) (split chunk [nl, nl]) p"

text \<open>The \<open>while\<close> loop over the chunks that \<open>reader.read()\<close> delivers.\<close>

definition pump :: "env \<Rightarrow> nat \<Rightarrow> string list \<Rightarrow> string \<times> state \<Rightarrow> string \<times> state" where
  "pump e aiMessageId chunks p = fold (onChunk e aiMessageId) chunks p"

text \<open>The deltas a chunk, and a sequence of chunks, make the callback append.\<close>

definition chunkDeltas :: "env \<Rightarrow> string \<Rightarrow> string list" where
  "chunkDeltas e chunk = List.map_filter (partDelta e) (split chunk [nl, nl])"

definition streamDeltas :: "env \<Rightarrow> string list \<Rightarrow> string list" where
  "streamDeltas e chunks = concat (map (chunkDeltas e) chunks)"

section \<open>Text generation\<close>

definition roleName :: "role \<Rightarrow> string" where
  "roleName r = (case r of User \<Rightarrow> ''user'' | Ai \<Rightarrow> ''ai'')"

definition messagesForApi :: "state \<Rightarrow> string \<Rightarrow> (string \<times> string) list" where
  "messagesForApi st prompt =
     [(''system'', systemPrompt (settings st))]
     @ map (\<lambda>m. (roleName (role m), content m))
           (filter (\<lambda>m. mtype m = Text) (activeMessages st))
     @ [(''user'', prompt)]"

definition stoppedNotice :: string where
  "stoppedNotice = [nl, nl] @ ''*(Generation stopped by user)*''"

text \<open>The \<open>catch\<close> block of \<open>sendChatMessage\<close>.\<close>

definition chatCatch ::
  "env \<Rightarrow> nat \<Rightarrow> bool \<Rightarrow> string \<Rightarrow> string \<times> state \<Rightarrow> state" where
  "chatCatch e aiMessageId aborted errMsg p =
     (if aborted then
        updateLastMessageContent e aiMessageId (fst p @ stoppedNotice) True errMsg
          (showToast ''info'' ''AI response generation stopped.'' (snd p))
      else
        updateLastMessageContent e aiMessageId
          (fst p @ [nl, nl] @ ''**Error:** '' @ errMsg) True errMsg
          (showToast ''error'' (''AI chat error: '' @ errMsg) (snd p)))"

text \<open>The message of the error thrown for a response that is not ok.\<close>

definition notOkMessage :: "error_body \<Rightarrow> string \<Rightarrow> string" where
  "notOkMessage body statusText =
     (case body of
        JsonRejects m \<Rightarrow> m
      | ErrorData (Some m) \<Rightarrow> m
      | ErrorData None \<Rightarrow> statusText)"

text \<open>The \<open>try\<close> and \<open>catch\<close> blocks of \<open>sendChatMessage\<close>, after the request is built.\<close>

definition chatTry :: "env \<Rightarrow> nat \<Rightarrow> state \<Rightarrow> state" where
  "chatTry e aiMessageId st =
     (case chatReply e of
        FetchRejects aborted m \<Rightarrow> chatCatch e aiMessageId aborted m ([], st)
      | NotOk aborted body statusText \<Rightarrow>
          chatCatch e aiMessageId aborted (notOkMessage body statusText) ([], st)
      | Streaming chunks ending \<Rightarrow>
          (let p = pump e aiMessageId chunks ([], st)
           in case ending of
                Done \<Rightarrow> snd p
              | ReadRejects aborted m \<Rightarrow> chatCatch e aiMessageId aborted m p))"

text \<open>
  The \<open>finally\<close> block of \<open>sendChatMessage\<close> and of \<open>handleSendMessage\<close>: the flag is
  reset, the indicator hidden, the controller released.
\<close>

definition finalize :: "state \<Rightarrow> state" where
  "finalize st =
     (showTypingIndicator False (st\<lparr>isGenerating := False\<rparr>))\<lparr>abortController := None\<rparr>"

definition needsNewConversation :: "state \<Rightarrow> bool" where
  "needsNewConversation st =
     (activeConversationId st = None
      \<or> (case activeConv st of None \<Rightarrow> False | Some c \<Rightarrow> length (messages c) = 0))"

definition sendChatMessage :: "env \<Rightarrow> string \<Rightarrow> state \<Rightarrow> state" where
  "sendChatMessage e prompt st =
     (if openrouterKey (settings st) = [] then
        (let st1 = showToast ''error''
                     ''OpenRouter API key is not configured in settings.'' st;
             st2 = addMessageToConversation e
                     (mkMessage (nextId st1) User prompt (now e))
                     (st1\<lparr>nextId := Suc (nextId st1)\<rparr>)
         in addMessageToConversation e
              ((mkMessage (nextId st2) Ai
                  ''Error: OpenRouter API key is not configured. Please check settings.''
                  (now e))
                 \<lparr>error := Some True, errorMessage := Some ''API key not configured.''\<rparr>)
              (st2\<lparr>nextId := Suc (nextId st2)\<rparr>))
      else
        (let st1 = (if needsNewConversation st then startNewConversation e prompt st
                    else st)
         in case activeConv st1 of
              None \<Rightarrow> showToast ''error'' ''No active conversation found.'' st1
            | Some c \<Rightarrow>
                (let st2 = addMessageToConversation e
                             (mkMessage (nextId st1) User prompt (now e))
                             (st1\<lparr>nextId := Suc (nextId st1)\<rparr>);
                     msgs = messagesForApi st2 prompt;
                     st3 = st2\<lparr>abortController := Some False\<rparr>;
                     aiMessageId = nextId st3;
                     st4 = addMessageToConversation e
                             (mkMessage aiMessageId Ai [] (now e))
                             (st3\<lparr>nextId := Suc aiMessageId\<rparr>);
                     st5 = st4\<lparr>requests := requests st4
                                @ [ChatCompletion (modelId (settings st4)) msgs]\<rparr>
                 in finalize (chatTry e aiMessageId st5))))"

section \<open>Image generation\<close>

definition generateWithPollinations ::
  "env \<Rightarrow> string \<Rightarrow> state \<Rightarrow> (exn + string) \<times> state" where
  "generateWithPollinations e prompt st =
     (let url = ''https://image.pollinations.ai/prompt/'' @ encodeURIComponent e prompt
                @ ''?width=1024&height=1024'';
          st1 = st\<lparr>requests := requests st @ [PollinationsFetch url]\<rparr>
      in case pollinationsReply e of
           PFetchRejects m \<Rightarrow> (Inl (Error m), st1)
         | PResponse ok status contentType \<Rightarrow>
             if \<not> ok then
               (Inl (Error (''Pollinations.ai returned status '' @ status)), st1)
             else if (case contentType of
                        None \<Rightarrow> True
                      | Some ct \<Rightarrow> ct = [] \<or> \<not> startsWith ct ''image/'') then
               (Inl (Error
                  ''Pollinations.ai did not return an image. It might be an error page.''),
                st1)
             else (Inr url, st1))"

text \<open>
  An array read past the end is \<open>undefined\<close>, which a template literal prints as the
  word.
\<close>

definition elemText :: "string list \<Rightarrow> nat \<Rightarrow> string" where
  "elemText xs i = (if i < length xs then xs ! i else ''undefined'')"

definition generateWithLoremFlickr :: "env \<Rightarrow> string" where
  "generateWithLoremFlickr e =
     (let size = split (IMAGE_DEFAULT_SIZE e) ''x'';
          width = elemText size 0;
          height = elemText size 1
      in ''https://loremflickr.com/'' @ width @ ''/'' @ height @ ''/abstract,random'')"

definition generateWithOpenRouter ::
  "env \<Rightarrow> string \<Rightarrow> state \<Rightarrow> (exn + string) \<times> state" where
  "generateWithOpenRouter e prompt st =
     (if openrouterKey (settings st) = [] then
        (Inl (Error ''OpenRouter API key is not configured for image generation.''), st)
      else if imageModel (settings st) = [] then
        (Inl (Error ''OpenRouter image model ID is not configured.''), st)
      else
        (let st1 = st\<lparr>requests := requests st
                      @ [OpenRouterImage prompt (imageModel (settings st))
                           (IMAGE_DEFAULT_SIZE e)]\<rparr>
         in case openrouterReply e of
              OFetchRejects m \<Rightarrow> (Inl (Error m), st1)
            | ONotOk body statusText \<Rightarrow> (Inl (Error (notOkMessage body statusText)), st1)
            | OJsonRejects m \<Rightarrow> (Inl (Error m), st1)
            | OData u \<Rightarrow>
                (case u of
                   None \<Rightarrow> (Inl (Error ''OpenRouter did not return an image URL.''), st1)
                 | Some url \<Rightarrow>
                     if url \<noteq> [] then (Inr url, st1)
                     else (Inl (Error ''OpenRouter did not return an image URL.''), st1))))"

text \<open>The \<open>try\<close> block of \<open>generateImage\<close>: the thrown error or the image URL.\<close>

definition imageTry :: "env \<Rightarrow> string \<Rightarrow> state \<Rightarrow> (exn + string) \<times> state" where
  "imageTry e prompt st =
     (let st1 = (showToast ''info'' ''Generating image...'' st)
                  \<lparr>abortController := Some False\<rparr>;
          r = (if imageProvider (settings st1) = ''pollinations''
               then generateWithPollinations e prompt st1
               else if imageProvider (settings st1) = ''openrouter''
               then generateWithOpenRouter e prompt st1
               else (Inr [], st1))
      in case fst r of
           Inl x \<Rightarrow> r
         | Inr imageUrl \<Rightarrow>
             if imageUrl = []
             then (Inl (Error ''Image generation failed or returned no URL.''), snd r)
             else r)"

text \<open>
  The \<open>try\<close> and \<open>catch\<close> blocks together: the values of the locals \<open>imageUrl\<close>,
  \<open>errorOccurred\<close> and \<open>errorMessage\<close> when the \<open>finally\<close> block starts.
  \<open>generateWithLoremFlickr\<close> builds a string and throws nothing, so the inner \<open>catch\<close>
  is never entered.
\<close>

definition imageTryCatch ::
  "env \<Rightarrow> string \<Rightarrow> state \<Rightarrow> (string \<times> bool \<times> string) \<times> state" where
  "imageTryCatch e prompt st =
     (let r = imageTry e prompt st
      in case fst r of
           Inr imageUrl \<Rightarrow> ((imageUrl, False, []), snd r)
         | Inl x \<Rightarrow>
             (let st1 = showToast ''error''
                          (''Image generation failed: '' @ message_of x) (snd r)
              in if imageProvider (settings st1) = ''pollinations'' then
                   ((generateWithLoremFlickr e, False, []),
                    showToast ''info''
                      ''Pollinations.ai failed, falling back to LoremFlickr...'' st1)
                 else (([], True, message_of x), st1)))"

text \<open>
  The names \<open>chat.js\<close> exports. \<open>image.js\<close> imports the module as the namespace object
  \<open>Chat\<close>; a property of it that is not an export reads as \<open>undefined\<close>.
\<close>

definition chat_exports :: "string list" where
  "chat_exports =
     [''setupEventListeners'', ''setMode'', ''addMessageToConversation'',
      ''startNewConversation'', ''loadConversation'', ''deleteConversation'',
      ''clearAllConversations'', ''stopGenerating'', ''regenerateResponse'']"

definition Chat_has :: "string \<Rightarrow> bool" where
  "Chat_has name = List.member chat_exports name"

text \<open>
  The \<open>finally\<close> block of \<open>generateImage\<close>. It reads \<open>Chat.STATE.conversations\<close> first and
  \<open>Chat.Storage.saveConversation\<close> after the message is replaced; reading a property
  of \<open>undefined\<close> throws a \<open>TypeError\<close> (the message is the V8 engine's) and leaves the
  rest of the block undone.
\<close>

definition imageFinally ::
  "env \<Rightarrow> nat \<Rightarrow> string \<Rightarrow> string \<times> bool \<times> string \<Rightarrow> state \<Rightarrow> exn option \<times> state" where
  "imageFinally e aiImageMessageId prompt locals st =
     (let imageUrl = fst locals;
          errorOccurred = fst (snd locals);
          errMsg = snd (snd locals)
      in if \<not> Chat_has ''STATE'' then
           (Some (TypeError
              ''Cannot read properties of undefined (reading 'conversations')''), st)
         else
           (case activeConv st of
              None \<Rightarrow> (None, finalize st)
            | Some c \<Rightarrow>
                (case findIndex (\<lambda>m. msg_id m = aiImageMessageId) (messages c) of
                   None \<Rightarrow> (None, finalize st)
                 | Some i \<Rightarrow>
                     (let st1 = updActive
                            (\<lambda>c. c\<lparr>messages := (messages c)
                               [i := (messages c ! i)
                                  \<lparr>mtype := (if errorOccurred then Text else Image),
                                   content := (if errorOccurred
                                               then ''Image generation failed: '' @ errMsg
                                               else imageUrl),
                                   msg_prompt := Some prompt,
                                   error := Some errorOccurred,
                                   errorMessage := Some errMsg\<rparr>]\<rparr>) st
                      in if \<not> Chat_has ''Storage'' then
                           (Some (TypeError
                              ''Cannot read properties of undefined (reading 'saveConversation')''),
                            st1)
                         else
                           (None,
                            finalize (updActive (\<lambda>c. c\<lparr>lastUpdated := now e\<rparr>) st1))))))"

text \<open>
  \<open>generateImage\<close>: the error the returned promise rejects with, if any, and the state.
\<close>

definition generateImage :: "env \<Rightarrow> string \<Rightarrow> state \<Rightarrow> exn option \<times> state" where
  "generateImage e prompt st =
     (let st1 = addMessageToConversation e
                  (mkMessage (nextId st) User prompt (now e))
                  (st\<lparr>nextId := Suc (nextId st)\<rparr>);
          aiImageMessageId = nextId st1;
          st2 = addMessageToConversation e
                  (mkMessage aiImageMessageId Ai ''Generating image...'' (now e))
                  (st1\<lparr>nextId := Suc aiImageMessageId\<rparr>);
          r = imageTryCatch e prompt st2
      in imageFinally e aiImageMessageId prompt (fst r) (snd r))"

section \<open>Session coordinator\<close>

text \<open>\<open>Security.filterSQLi\<close>, that is \<open>sanitizeInput\<close> of \<open>utils.js\<close>.\<close>

definition filterSQLi :: "env \<Rightarrow> string \<Rightarrow> exn + string" where
  "filterSQLi e input =
     (if sqliPattern e input
      then Inl (Error
        ''Potential SQL injection attempt detected. Please remove suspicious characters.'')
      else Inr input)"

text \<open>The \<open>catch\<close> block of \<open>handleSendMessage\<close>; \<open>prompt\<close> is the trimmed input.\<close>

definition sendCatch :: "env \<Rightarrow> string \<Rightarrow> exn \<Rightarrow> state \<Rightarrow> state" where
  "sendCatch e prompt x st =
     (let st1 = showToast ''error'' (message_of x) st
      in if mode st1 = ChatMode then
           (let st2 = addMessageToConversation e
                        (mkMessage (nextId st1) User prompt (now e))
                        (st1\<lparr>nextId := Suc (nextId st1)\<rparr>)
            in addMessageToConversation e
                 ((mkMessage (nextId st2) Ai
                     ''An internal error occurred while processing your request.''
                     (now e))
                    \<lparr>error := Some True, errorMessage := Some (message_of x)\<rparr>)
                 (st2\<lparr>nextId := Suc (nextId st2)\<rparr>))
         else st1)"

text \<open>
  \<open>handleSendMessage\<close>, run to completion; the input field is \<open>chatInput\<close> of the state.
\<close>

definition handleSendMessage :: "env \<Rightarrow> state \<Rightarrow> state" where
  "handleSendMessage e st =
     (let prompt = trim (chatInput st)
      in if prompt = [] then
           showToast ''warning'' ''Please enter a message or prompt.'' st
         else if isGenerating st then
           showToast ''warning''
             ''Please wait for the current generation to complete or stop it.'' st
         else
           finalize
             (case filterSQLi e prompt of
                Inl x \<Rightarrow> sendCatch e prompt x st
              | Inr sanitizedPrompt \<Rightarrow>
                  (let escapedPrompt = escapeHTML e sanitizedPrompt;
                       st1 = showTypingIndicator True
                               (st\<lparr>chatInput := [], isGenerating := True\<rparr>)
                   in case mode st1 of
                        ChatMode \<Rightarrow> sendChatMessage e escapedPrompt st1
                      | ImageMode \<Rightarrow>
                          (let r = generateImage e escapedPrompt st1
                           in case fst r of
                                None \<Rightarrow> snd r
                              | Some x \<Rightarrow> sendCatch e prompt x (snd r)))))"

definition stopGenerating :: "state \<Rightarrow> state" where
  "stopGenerating st =
     (case abortController st of
        Some a \<Rightarrow> st\<lparr>abortController := Some True\<rparr>
      | None \<Rightarrow> showToast ''info'' ''No active generation to stop.'' st)"

text \<open>
  \<open>regenerateResponse\<close>. \<open>sendChatMessage\<close> throws nothing in this model, so the \<open>catch\<close>
  block is not entered; the \<open>finally\<close> block resets \<open>isGenerating\<close> and hides the
  indicator, and leaves the controller alone.
\<close>

definition regenerateResponse :: "env \<Rightarrow> state \<Rightarrow> state" where
  "regenerateResponse e st =
     (if isGenerating st then
        showToast ''warning''
          ''Please wait for the current generation to complete or stop it.'' st
      else
        (case activeConv st of
           None \<Rightarrow> showToast ''info'' ''No previous AI response to regenerate.'' st
         | Some c \<Rightarrow>
             if length (messages c) < 2 then
               showToast ''info'' ''No previous AI response to regenerate.'' st
             else
               (case find (\<lambda>msg. role msg = User \<and> mtype msg = Text) (rev (messages c)) of
                  None \<Rightarrow> showToast ''info'' ''No user message found to regenerate from.'' st
                | Some lastUserMessage \<Rightarrow>
                    (let st1 = (case findIndex
                                       (\<lambda>msg. msg_id msg = msg_id (last (messages c))
                                              \<and> role msg = Ai) (messages c) of
                                  Some lastAIMessageIndex \<Rightarrow>
                                    updActive
                                      (\<lambda>c. c\<lparr>messages := splice1 lastAIMessageIndex (messages c),
                                             lastUpdated := now e\<rparr>) st
                                | None \<Rightarrow> st);
                         st2 = showToast ''info'' ''Regenerating AI response...'' st1;
                         st3 = sendChatMessage e (content lastUserMessage)
                                 (showTypingIndicator True (st2\<lparr>isGenerating := True\<rparr>))
                     in showTypingIndicator False (st3\<lparr>isGenerating := False\<rparr>)))))"

section \<open>Vocabulary of the proofs\<close>

text \<open>The second state differs from the first in its conversations at most.\<close>

definition onlyConvs :: "state \<Rightarrow> state \<Rightarrow> bool" where
  "onlyConvs st st' = (\<exists>cs. st' = st\<lparr>conversations := cs\<rparr>)"

text \<open>A message after a streaming patch with content \<open>c\<close>.\<close>

definition patched :: "message \<Rightarrow> string \<Rightarrow> message" where
  "patched t c = t\<lparr>content := c, error := Some False, errorMessage := Some []\<rparr>"

text \<open>The text of a chunk made of whole events, each followed by the delimiter.\<close>

definition wire :: "string list \<Rightarrow> string" where
  "wire events = concat (map (\<lambda>ev. ev @ [nl, nl]) events)"

section \<open>Sample inputs\<close>

text \<open>
  A concrete environment and states for the examples. \<open>sampleDeltaOf\<close> agrees with
  \<open>JSON.parse\<close> and the field path on the payloads the examples use: two well-formed
  events, and everything else fails to parse.
\<close>

definition sampleDeltaOf :: "string \<Rightarrow> string option" where
  \<open>sampleDeltaOf s =
     (if s = ''{"choices":[{"delta":{"content":"Hi"}}]}'' then Some ''Hi''
      else if s = ''{"choices":[{"delta":{"content":" there"}}]}'' then Some '' there''
      else None)\<close>

definition sampleEncode :: "string \<Rightarrow> string" where
  "sampleEncode s = concat (map (\<lambda>c. if c = CHR '' '' then ''%20'' else [c]) s)"

definition eventHi :: string where
  \<open>eventHi = ''data: {"choices":[{"delta":{"content":"Hi"}}]}''\<close>

definition eventThere :: string where
  \<open>eventThere = ''data: {"choices":[{"delta":{"content":" there"}}]}''\<close>

definition env0 :: env where
  "env0 =
     \<lparr>now = 0, deltaOf = sampleDeltaOf, sqliPattern = (\<lambda>s. False),
      escapeHTML = (\<lambda>s. s), encodeURIComponent = sampleEncode,
      IMAGE_DEFAULT_SIZE = ''1024x1024'', CONVERSATION_TITLE_MAX_LENGTH = 30,
      chatReply = Streaming [eventHi @ [nl, nl], eventThere @ [nl, nl]] Done,
      pollinationsReply = PResponse False ''500'' None,
      openrouterReply = OData None\<rparr>"

text \<open>The stream delivers one event, then the user stops the generation.\<close>

definition abortEnv :: env where
  "abortEnv = env0\<lparr>chatReply :=
     Streaming [eventHi @ [nl, nl]] (ReadRejects True ''The user aborted a request.'')\<rparr>"

definition settings0 :: settings where
  "settings0 =
     \<lparr>openrouterKey = ''sk-or-test'', modelId = ''openai/gpt-4o-mini'',
      systemPrompt = ''You are JavaGoat.'', imageProvider = ''pollinations'',
      imageModel = ''stabilityai/stable-diffusion-xl-base-1.0''\<rparr>"

definition state0 :: state where
  "state0 =
     \<lparr>conversations = [], activeConversationId = None, isGenerating = False,
      abortController = None, mode = ChatMode, settings = settings0,
      chatInput = ''Hello'', toasts = [], requests = [], nextId = 0,
      isTyping = False, indicatorCalls = []\<rparr>"

definition blankState :: state where
  "blankState = state0\<lparr>chatInput := [CHR '' '', nl, CHR '' '']\<rparr>"

definition busyState :: state where
  "busyState = state0\<lparr>isGenerating := True, abortController := Some False\<rparr>"

definition imageState :: state where
  "imageState = state0\<lparr>mode := ImageMode, chatInput := ''a cat''\<rparr>"

definition openrouterState :: state where
  "openrouterState =
     imageState\<lparr>settings := settings0\<lparr>imageProvider := ''openrouter'', openrouterKey := []\<rparr>\<rparr>"

text \<open>
  States as \<open>handleSendMessage\<close> hands them to a session: input cleared, flag set,
  indicator shown. In \<open>noKeyRunning\<close> no credential is configured.
\<close>

definition chatRunning :: state where
  "chatRunning = showTypingIndicator True (state0\<lparr>chatInput := [], isGenerating := True\<rparr>)"

definition noKeyRunning :: state where
  "noKeyRunning = chatRunning\<lparr>settings := settings0\<lparr>openrouterKey := []\<rparr>\<rparr>"

definition imageRunning :: state where
  "imageRunning = chatRunning\<lparr>mode := ImageMode\<rparr>"

definition conv0 :: conversation where
  "conv0 =
     \<lparr>conv_id = 1, title = ''Hello'',
      messages =
        [mkMessage 0 User ''Hello'' 0,
         (mkMessage 2 Ai ''https://loremflickr.com/1024/1024/abstract,random'' 0)
           \<lparr>mtype := Image\<rparr>,
         mkMessage 3 User ''Hi'' 0,
         mkMessage 4 Ai ''Hi there'' 0],
      lastUpdated = 0\<rparr>"

definition chattedState :: state where
  "chattedState =
     state0\<lparr>conversations := [conv0], activeConversationId := Some 1, nextId := 5,
            chatInput := ''More''\<rparr>"

section \<open>Facts about the helpers\<close>

lemma find_SomeD: "find P xs = Some c \<Longrightarrow> P c"
  by (induction xs) (auto split: if_splits)

lemma find_updFirst:
  "find P xs = Some c \<Longrightarrow> P (f c) \<Longrightarrow> find P (updFirst P f xs) = Some (f c)"
  by (induction xs) (auto split: if_splits)

lemma updFirst_cong:
  "find P xs = Some c \<Longrightarrow> f c = g c \<Longrightarrow> updFirst P f xs = updFirst P g xs"
  by (induction xs) (auto split: if_splits)

lemma findIndex_append_last:
  "\<forall>m\<in>set pre. \<not> P m \<Longrightarrow> P t \<Longrightarrow> findIndex P (pre @ [t]) = Some (length pre)"
  by (induction pre) auto

lemma findIndex_last:
  assumes ne: "ms \<noteq> []" and d: "distinct (map k ms)" and p: "Q (last ms)"
  shows "findIndex (\<lambda>m. k m = k (last ms) \<and> Q m) ms = Some (length (butlast ms))"
proof -
  from ne have eq: "ms = butlast ms @ [last ms]"
    by simp
  from d eq have "distinct (map k (butlast ms) @ [k (last ms)])"
    by (metis list.simps(8) list.simps(9) map_append)
  then have "\<forall>m\<in>set (butlast ms). k m \<noteq> k (last ms)"
    by (auto simp: image_iff)
  then have "findIndex (\<lambda>m. k m = k (last ms) \<and> Q m) (butlast ms @ [last ms])
      = Some (length (butlast ms))"
    using p by (intro findIndex_append_last) auto
  with eq show ?thesis
    by simp
qed

lemma splice1_last: "ms \<noteq> [] \<Longrightarrow> splice1 (length (butlast ms)) ms = butlast ms"
  by (simp add: splice1_def butlast_conv_take)

lemma map_filter_append:
  "List.map_filter f (xs @ ys) = List.map_filter f xs @ List.map_filter f ys"
  by (simp add: List.map_filter_def)

lemma map_filter_concat:
  "List.map_filter f (concat xss) = concat (map (List.map_filter f) xss)"
  by (induction xss) (simp_all add: map_filter_append)

lemma trim_blank:
  assumes "\<forall>c\<in>set s. isWhiteSpace c"
  shows "trim s = []"
proof -
  from assms have h: "dropWhile isWhiteSpace s = []"
    by simp
  show ?thesis
    unfolding trim_def h by simp
qed

subsection \<open>The active conversation\<close>

lemma isActive_cong:
  "activeConversationId st' = activeConversationId st \<Longrightarrow> isActive st' = isActive st"
  by (simp add: isActive_def fun_eq_iff)

lemma activeConv_cong:
  "activeConversationId st' = activeConversationId st \<Longrightarrow>
   conversations st' = conversations st \<Longrightarrow> activeConv st' = activeConv st"
  using isActive_cong [of st' st] by (simp add: activeConv_def)

lemma activeConv_frame [simp]:
  "activeConv (st\<lparr>nextId := n\<rparr>) = activeConv st"
  "activeConv (st\<lparr>toasts := t\<rparr>) = activeConv st"
  "activeConv (st\<lparr>requests := r\<rparr>) = activeConv st"
  "activeConv (st\<lparr>abortController := a\<rparr>) = activeConv st"
  "activeConv (st\<lparr>isGenerating := g\<rparr>) = activeConv st"
  "activeConv (st\<lparr>chatInput := i\<rparr>) = activeConv st"
  "activeConv (showTypingIndicator b st) = activeConv st"
  by (rule activeConv_cong; simp add: showTypingIndicator_def)+

lemma activeConv_no_id: "activeConversationId st = None \<Longrightarrow> activeConv st = None"
proof -
  assume a: "activeConversationId st = None"
  have "find (isActive st) xs = None" for xs
    by (induction xs) (simp_all add: isActive_def a)
  then show ?thesis
    by (simp add: activeConv_def)
qed

lemma activeConv_updActive:
  assumes a: "activeConv st = Some c" and b: "conv_id (f c) = conv_id c"
  shows "activeConv (updActive f st) = Some (f c)"
proof -
  have eq: "isActive (updActive f st) = isActive st"
    by (rule isActive_cong) (simp add: updActive_def)
  from a have "isActive st c"
    by (auto simp: activeConv_def dest: find_SomeD)
  with b have "isActive st (f c)"
    by (simp add: isActive_def)
  with a have "find (isActive st) (updFirst (isActive st) f (conversations st)) = Some (f c)"
    by (simp add: activeConv_def find_updFirst)
  then show ?thesis
    by (simp add: activeConv_def eq) (simp add: updActive_def)
qed

lemma updActive_cong:
  "activeConv st = Some c \<Longrightarrow> f c = g c \<Longrightarrow> updActive f st = updActive g st"
  by (simp add: updActive_def activeConv_def updFirst_cong [of _ _ c f g])

lemma activeConv_startNew:
  "activeConv (startNewConversation e p st) =
     Some \<lparr>conv_id = nextId st, title = truncateText p (CONVERSATION_TITLE_MAX_LENGTH e),
           messages = [], lastUpdated = now e\<rparr>"
  by (simp add: activeConv_def startNewConversation_def isActive_def Let_def)

lemma activeMessages_cong:
  "activeConversationId st' = activeConversationId st \<Longrightarrow>
   conversations st' = conversations st \<Longrightarrow> activeMessages st' = activeMessages st"
  using activeConv_cong [of st' st] by (simp add: activeMessages_def)

lemma activeMessages_finalize: "activeMessages (finalize st) = activeMessages st"
  by (rule activeMessages_cong) (simp_all add: finalize_def showTypingIndicator_def)

lemma activeMessages_showToast: "activeMessages (showToast k m st) = activeMessages st"
  by (rule activeMessages_cong) (simp_all add: showToast_def)

lemma activeMessages_SomeD:
  "activeMessages st = pre @ [t] \<Longrightarrow> \<exists>c. activeConv st = Some c \<and> messages c = pre @ [t]"
  by (auto simp: activeMessages_def split: option.splits)

subsection \<open>What the store operations leave alone\<close>

lemma onlyConvs_refl: "onlyConvs st st"
  unfolding onlyConvs_def by (rule exI [of _ "conversations st"]) simp

lemma onlyConvs_trans: "onlyConvs a b \<Longrightarrow> onlyConvs b c \<Longrightarrow> onlyConvs a c"
  by (auto simp: onlyConvs_def)

lemma onlyConvs_fields:
  assumes "onlyConvs st st'"
  shows "requests st' = requests st" "toasts st' = toasts st" "settings st' = settings st"
    "isGenerating st' = isGenerating st" "abortController st' = abortController st"
    "activeConversationId st' = activeConversationId st" "nextId st' = nextId st"
    "mode st' = mode st" "chatInput st' = chatInput st"
    "isTyping st' = isTyping st" "indicatorCalls st' = indicatorCalls st"
  using assms by (auto simp: onlyConvs_def)

lemma onlyConvs_updActive: "onlyConvs st (updActive f st)"
  by (auto simp: onlyConvs_def updActive_def)

lemma onlyConvs_ulmc: "onlyConvs st (updateLastMessageContent e i c b m st)"
  by (simp add: updateLastMessageContent_def onlyConvs_refl onlyConvs_updActive
      split: option.splits)

lemma onlyConvs_onPart: "onlyConvs (snd p) (snd (onPart e i part p))"
  by (simp add: onPart_def onlyConvs_refl onlyConvs_ulmc split: option.splits)

lemma onlyConvs_fold:
  assumes "\<And>x p. onlyConvs (snd p) (snd (f x p))"
  shows "onlyConvs (snd p) (snd (fold f xs p))"
proof (induction xs arbitrary: p)
  case Nil
  show ?case
    by (simp add: onlyConvs_refl)
next
  case (Cons x xs)
  show ?case
    using onlyConvs_trans [OF assms [of p x] Cons.IH [of "f x p"]] by simp
qed

lemma onlyConvs_onChunk: "onlyConvs (snd p) (snd (onChunk e i chunk p))"
  unfolding onChunk_def by (rule onlyConvs_fold) (rule onlyConvs_onPart)

lemma onlyConvs_pump: "onlyConvs (snd p) (snd (pump e i chunks p))"
  unfolding pump_def by (rule onlyConvs_fold) (rule onlyConvs_onChunk)

lemma addMessage_active:
  "activeConv st = Some c \<Longrightarrow>
   addMessageToConversation e m st =
     updActive (\<lambda>c. c\<lparr>messages := messages c @ [m], lastUpdated := now e\<rparr>) st"
  by (simp add: addMessageToConversation_def)

lemma activeConv_addMessage:
  "activeConv st = Some c \<Longrightarrow>
   activeConv (addMessageToConversation e m st) =
     Some (c\<lparr>messages := messages c @ [m], lastUpdated := now e\<rparr>)"
  by (simp add: addMessage_active activeConv_updActive)

lemma onlyConvs_addMessage:
  "activeConv st = Some c \<Longrightarrow> onlyConvs st (addMessageToConversation e m st)"
  by (simp add: addMessage_active onlyConvs_updActive)

lemma addMessage_frame:
  "abortController (addMessageToConversation e m st) = abortController st"
  "isGenerating (addMessageToConversation e m st) = isGenerating st"
  "requests (addMessageToConversation e m st) = requests st"
  "settings (addMessageToConversation e m st) = settings st"
  "mode (addMessageToConversation e m st) = mode st"
  "isTyping (addMessageToConversation e m st) = isTyping st"
  "indicatorCalls (addMessageToConversation e m st) = indicatorCalls st"
  by (simp_all add: addMessageToConversation_def updActive_def startNewConversation_def
      showToast_def Let_def split: option.splits)

lemma requests_chatCatch: "requests (chatCatch e i ab m p) = requests (snd p)"
  by (simp add: chatCatch_def onlyConvs_fields [OF onlyConvs_ulmc] showToast_def)

lemma requests_pump: "requests (snd (pump e i chunks p)) = requests (snd p)"
  by (rule onlyConvs_fields(1) [OF onlyConvs_pump])

lemma requests_chatTry: "requests (chatTry e i st) = requests st"
  by (simp add: chatTry_def requests_chatCatch requests_pump Let_def
      split: chat_reply.splits stream_end.splits)

lemma chatCatch_frame:
  "isGenerating (chatCatch e i ab m p) = isGenerating (snd p)"
  "abortController (chatCatch e i ab m p) = abortController (snd p)"
  "indicatorCalls (chatCatch e i ab m p) = indicatorCalls (snd p)"
  by (simp_all add: chatCatch_def onlyConvs_fields [OF onlyConvs_ulmc] showToast_def)

lemma pump_frame:
  "isGenerating (snd (pump e i chunks p)) = isGenerating (snd p)"
  "abortController (snd (pump e i chunks p)) = abortController (snd p)"
  "indicatorCalls (snd (pump e i chunks p)) = indicatorCalls (snd p)"
  by (rule onlyConvs_fields [OF onlyConvs_pump])+

lemma chatTry_frame:
  "isGenerating (chatTry e i st) = isGenerating st"
  "abortController (chatTry e i st) = abortController st"
  "indicatorCalls (chatTry e i st) = indicatorCalls st"
  by (simp_all add: chatTry_def chatCatch_frame pump_frame Let_def
      split: chat_reply.splits stream_end.splits)

lemma abortController_sendChatMessage:
  "abortController (sendChatMessage e p st) = None
   \<or> abortController (sendChatMessage e p st) = abortController st"
  by (simp add: sendChatMessage_def Let_def addMessage_frame showToast_def finalize_def
      showTypingIndicator_def startNewConversation_def split: option.splits)

subsection \<open>The streaming loop\<close>

lemma activeMessages_ulmc:
  assumes am: "activeMessages st = pre @ [t]"
    and t: "msg_id t = i"
    and pre: "\<forall>m\<in>set pre. msg_id m \<noteq> i"
  shows "activeMessages (updateLastMessageContent e i newc b em st) =
     pre @ [t\<lparr>content := newc, error := Some b, errorMessage := Some em\<rparr>]"
proof -
  from activeMessages_SomeD [OF am] obtain c
    where c: "activeConv st = Some c" and mc: "messages c = pre @ [t]"
    by blast
  have fi: "findIndex (\<lambda>m. msg_id m = i) (messages c) = Some (length pre)"
    unfolding mc using pre t by (intro findIndex_append_last) auto
  have "activeConv (updateLastMessageContent e i newc b em st) =
      Some (c\<lparr>messages := (messages c)
                [length pre := (messages c ! length pre)\<lparr>content := newc,
                   error := Some b, errorMessage := Some em\<rparr>],
              lastUpdated := now e\<rparr>)"
    by (simp add: updateLastMessageContent_def c fi activeConv_updActive)
  then show ?thesis
    by (simp add: activeMessages_def mc)
qed

lemma fold_onPart:
  assumes t: "msg_id t = i" and pre: "\<forall>m\<in>set pre. msg_id m \<noteq> i"
  shows "activeMessages st = pre @ [t] \<Longrightarrow>
     fst (fold (onPart e i) ps (acc, st)) = acc @ concat (List.map_filter (partDelta e) ps)
     \<and> activeMessages (snd (fold (onPart e i) ps (acc, st))) =
         pre @ [if List.map_filter (partDelta e) ps = [] then t
                else patched t (acc @ concat (List.map_filter (partDelta e) ps))]"
  using t
proof (induction ps arbitrary: acc st t)
  case Nil
  then show ?case
    by simp
next
  case (Cons p ps)
  show ?case
  proof (cases "partDelta e p")
    case None
    with Cons.IH [OF Cons.prems] show ?thesis
      by (simp add: onPart_def)
  next
    case (Some d)
    let ?t' = "t\<lparr>content := acc @ d, error := Some False, errorMessage := Some []\<rparr>"
    let ?st' = "updateLastMessageContent e i (acc @ d) False [] st"
    have am': "activeMessages ?st' = pre @ [?t']"
      by (rule activeMessages_ulmc [OF Cons.prems(1) Cons.prems(2) pre])
    have t': "msg_id ?t' = i"
      using Cons.prems(2) by simp
    from Cons.IH [OF am' t', of "acc @ d"] Some show ?thesis
      by (simp add: onPart_def patched_def)
  qed
qed

lemma pump_content:
  assumes pre: "\<forall>m\<in>set pre. msg_id m \<noteq> i"
  shows "activeMessages st = pre @ [t] \<Longrightarrow> msg_id t = i \<Longrightarrow>
     fst (pump e i chunks (acc, st)) = acc @ concat (streamDeltas e chunks)
     \<and> activeMessages (snd (pump e i chunks (acc, st))) =
         pre @ [if streamDeltas e chunks = [] then t
                else patched t (acc @ concat (streamDeltas e chunks))]"
proof (induction chunks arbitrary: acc st t)
  case Nil
  then show ?case
    by (simp add: pump_def streamDeltas_def)
next
  case (Cons ch chunks)
  let ?ds = "chunkDeltas e ch"
  let ?p = "onChunk e i ch (acc, st)"
  let ?t1 = "if ?ds = [] then t else patched t (acc @ concat ?ds)"
  have step: "fst ?p = acc @ concat ?ds \<and> activeMessages (snd ?p) = pre @ [?t1]"
    unfolding onChunk_def chunkDeltas_def
    by (rule fold_onPart [OF Cons.prems(2) pre Cons.prems(1)])
  have t1: "msg_id ?t1 = i"
    using Cons.prems(2) by (simp add: patched_def)
  have p: "?p = (acc @ concat ?ds, snd ?p)"
    using step by (simp add: prod_eq_iff)
  from Cons.IH [OF conjunct2 [OF step] t1, of "acc @ concat ?ds"]
  have "fst (pump e i chunks ?p) = (acc @ concat ?ds) @ concat (streamDeltas e chunks)
     \<and> activeMessages (snd (pump e i chunks ?p)) =
         pre @ [if streamDeltas e chunks = [] then ?t1
                else patched ?t1 ((acc @ concat ?ds) @ concat (streamDeltas e chunks))]"
    using p by simp
  then show ?case
    by (simp add: pump_def streamDeltas_def patched_def)
qed

subsection \<open>The state in which the request is issued\<close>

lemma sendChatMessage_run:
  assumes key: "openrouterKey (settings st) \<noteq> []"
    and valid: "activeConversationId st = None \<or> activeConv st \<noteq> None"
  obtains st5 uid where
    "sendChatMessage e prompt st = finalize (chatTry e (Suc uid) st5)"
    "nextId st \<le> uid"
    "activeMessages st5 =
       activeMessages st @ [mkMessage uid User prompt (now e), mkMessage (Suc uid) Ai [] (now e)]"
    "requests st5 =
       requests st @
       [ChatCompletion (modelId (settings st))
          ([(''system'', systemPrompt (settings st))]
           @ map (\<lambda>m. (roleName (role m), content m))
               (filter (\<lambda>m. mtype m = Text) (activeMessages st))
           @ [(''user'', prompt), (''user'', prompt)])]"
    "toasts st5 = toasts st"
    "isGenerating st5 = isGenerating st"
    "abortController st5 = Some False"
    "indicatorCalls st5 = indicatorCalls st"
proof -
  define st1 where "st1 = (if needsNewConversation st then startNewConversation e prompt st else st)"
  have "\<exists>c1. activeConv st1 = Some c1 \<and> messages c1 = activeMessages st"
  proof (cases "needsNewConversation st")
    case True
    then have "activeMessages st = []"
      by (auto simp: needsNewConversation_def activeMessages_def activeConv_no_id
          split: option.splits)
    with True show ?thesis
      by (simp add: st1_def activeConv_startNew)
  next
    case False
    with valid obtain c where "activeConv st = Some c"
      by (auto simp: needsNewConversation_def)
    with False show ?thesis
      by (simp add: st1_def activeMessages_def)
  qed
  then obtain c1 where c1: "activeConv st1 = Some c1" and m1: "messages c1 = activeMessages st"
    by blast
  have f1: "settings st1 = settings st" "requests st1 = requests st" "toasts st1 = toasts st"
    "nextId st \<le> nextId st1"
    by (simp_all add: st1_def startNewConversation_def Let_def)
  have g1: "isGenerating st1 = isGenerating st" "indicatorCalls st1 = indicatorCalls st"
    by (simp_all add: st1_def startNewConversation_def Let_def)
  define um where "um = mkMessage (nextId st1) User prompt (now e)"
  define st2 where "st2 = addMessageToConversation e um (st1\<lparr>nextId := Suc (nextId st1)\<rparr>)"
  have c1': "activeConv (st1\<lparr>nextId := Suc (nextId st1)\<rparr>) = Some c1"
    using c1 by simp
  have c2: "activeConv st2 = Some (c1\<lparr>messages := messages c1 @ [um], lastUpdated := now e\<rparr>)"
    unfolding st2_def by (rule activeConv_addMessage [OF c1'])
  have o2: "onlyConvs (st1\<lparr>nextId := Suc (nextId st1)\<rparr>) st2"
    unfolding st2_def by (rule onlyConvs_addMessage [OF c1'])
  have f2: "settings st2 = settings st" "requests st2 = requests st" "toasts st2 = toasts st"
    "nextId st2 = Suc (nextId st1)"
    using onlyConvs_fields [OF o2] f1 by simp_all
  have g2: "isGenerating st2 = isGenerating st" "indicatorCalls st2 = indicatorCalls st"
    using onlyConvs_fields [OF o2] g1 by simp_all
  define st3 where "st3 = st2\<lparr>abortController := Some False\<rparr>"
  define am where "am = mkMessage (nextId st3) Ai [] (now e)"
  define st4 where "st4 = addMessageToConversation e am (st3\<lparr>nextId := Suc (nextId st3)\<rparr>)"
  have c3: "activeConv (st3\<lparr>nextId := Suc (nextId st3)\<rparr>) =
      Some (c1\<lparr>messages := messages c1 @ [um], lastUpdated := now e\<rparr>)"
    using c2 by (simp add: st3_def)
  have c4: "activeConv st4 =
      Some (c1\<lparr>messages := messages c1 @ [um], lastUpdated := now e\<rparr>
              \<lparr>messages := (messages c1 @ [um]) @ [am], lastUpdated := now e\<rparr>)"
    unfolding st4_def using activeConv_addMessage [OF c3, of e am] by simp
  have o4: "onlyConvs (st3\<lparr>nextId := Suc (nextId st3)\<rparr>) st4"
    unfolding st4_def by (rule onlyConvs_addMessage [OF c3])
  have f4: "settings st4 = settings st" "requests st4 = requests st" "toasts st4 = toasts st"
    using onlyConvs_fields [OF o4] f2 by (simp_all add: st3_def)
  have g4: "isGenerating st4 = isGenerating st" "abortController st4 = Some False"
    "indicatorCalls st4 = indicatorCalls st"
    using onlyConvs_fields [OF o4] g2 by (simp_all add: st3_def)
  have n3: "nextId st3 = Suc (nextId st1)"
    by (simp add: st3_def f2)
  have msgs: "messagesForApi st2 prompt =
      [(''system'', systemPrompt (settings st))]
      @ map (\<lambda>m. (roleName (role m), content m))
          (filter (\<lambda>m. mtype m = Text) (activeMessages st))
      @ [(''user'', prompt), (''user'', prompt)]"
    by (simp add: messagesForApi_def activeMessages_def [of st2] c2 f2 m1 um_def
        mkMessage_def roleName_def)
  define st5 where "st5 = st4\<lparr>requests := requests st4
              @ [ChatCompletion (modelId (settings st4)) (messagesForApi st2 prompt)]\<rparr>"
  have run: "sendChatMessage e prompt st = finalize (chatTry e (Suc (nextId st1)) st5)"
    using key c1
    by (simp add: sendChatMessage_def Let_def st1_def [symmetric] st2_def um_def st3_def
        st4_def am_def st5_def f2(4) [unfolded st2_def um_def])
  have am5: "activeMessages st5 =
      activeMessages st @ [mkMessage (nextId st1) User prompt (now e),
                           mkMessage (Suc (nextId st1)) Ai [] (now e)]"
    by (simp add: activeMessages_def st5_def c4 m1 um_def am_def n3)
  show thesis
    by (rule that [OF run f1(4) am5])
       (simp_all add: st5_def f4 g4 msgs)
qed

text \<open>
  Past its guards the text session ends with its \<open>finally\<close> block, whatever the network
  answers; on its early returns it touches neither the flag, the controller nor the
  indicator.
\<close>

lemma sendChatMessage_finalizes:
  assumes key: "openrouterKey (settings st) \<noteq> []"
    and valid: "activeConversationId st = None \<or> activeConv st \<noteq> None"
  shows "isGenerating (sendChatMessage e prompt st) = False"
    and "abortController (sendChatMessage e prompt st) = None"
    and "indicatorCalls (sendChatMessage e prompt st) = indicatorCalls st @ [False]"
proof -
  from sendChatMessage_run [OF key valid, of e prompt] obtain st5 uid where
    run: "sendChatMessage e prompt st = finalize (chatTry e (Suc uid) st5)"
    and ic: "indicatorCalls st5 = indicatorCalls st"
    by blast
  show "isGenerating (sendChatMessage e prompt st) = False"
    by (simp add: run finalize_def showTypingIndicator_def)
  show "abortController (sendChatMessage e prompt st) = None"
    by (simp add: run finalize_def)
  show "indicatorCalls (sendChatMessage e prompt st) = indicatorCalls st @ [False]"
    by (simp add: run finalize_def showTypingIndicator_def chatTry_frame ic)
qed

lemma sendChatMessage_early_return:
  assumes "openrouterKey (settings st) = []
     \<or> (activeConversationId st \<noteq> None \<and> activeConv st = None)"
  shows "isGenerating (sendChatMessage e prompt st) = isGenerating st"
    and "abortController (sendChatMessage e prompt st) = abortController st"
    and "indicatorCalls (sendChatMessage e prompt st) = indicatorCalls st"
proof -
  have "isGenerating (sendChatMessage e prompt st) = isGenerating st
      \<and> abortController (sendChatMessage e prompt st) = abortController st
      \<and> indicatorCalls (sendChatMessage e prompt st) = indicatorCalls st"
  proof (cases "openrouterKey (settings st) = []")
    case True
    then show ?thesis
      by (simp add: sendChatMessage_def Let_def addMessage_frame showToast_def)
  next
    case False
    with assms have none: "activeConv st = None" and nn: "\<not> needsNewConversation st"
      by (auto simp: needsNewConversation_def)
    show ?thesis
      by (simp add: sendChatMessage_def False nn none showToast_def)
  qed
  then show "isGenerating (sendChatMessage e prompt st) = isGenerating st"
    and "abortController (sendChatMessage e prompt st) = abortController st"
    and "indicatorCalls (sendChatMessage e prompt st) = indicatorCalls st"
    by simp_all
qed

lemma finalize_fields:
  "isGenerating (finalize st) = False"
  "abortController (finalize st) = None"
  "indicatorCalls (finalize st) = indicatorCalls st @ [False]"
  by (simp_all add: finalize_def showTypingIndicator_def)

lemma sendCatch_frame:
  "indicatorCalls (sendCatch e prompt x st) = indicatorCalls st"
  by (simp add: sendCatch_def Let_def addMessage_frame showToast_def)

text \<open>
  What a cancelled stream leaves in the transcript: the deltas applied so far, the
  notice, and the error flag set.
\<close>

lemma sendChatMessage_cancelled:
  assumes key: "openrouterKey (settings st) \<noteq> []"
    and valid: "activeConversationId st = None \<or> activeConv st \<noteq> None"
    and fresh: "\<forall>m\<in>set (activeMessages st). msg_id m < nextId st"
    and reply: "chatReply e = Streaming chunks (ReadRejects True msg)"
  shows "map (\<lambda>m. (role m, content m, error m, errorMessage m))
       (activeMessages (sendChatMessage e prompt st)) =
     map (\<lambda>m. (role m, content m, error m, errorMessage m)) (activeMessages st)
     @ [(User, prompt, None, None),
        (Ai, concat (streamDeltas e chunks) @ stoppedNotice, Some True, Some msg)]"
proof -
  from sendChatMessage_run [OF key valid, of e prompt] obtain st5 uid where
    run: "sendChatMessage e prompt st = finalize (chatTry e (Suc uid) st5)"
    and uid: "nextId st \<le> uid"
    and am5: "activeMessages st5 =
       activeMessages st @ [mkMessage uid User prompt (now e), mkMessage (Suc uid) Ai [] (now e)]"
    by blast
  let ?pre = "activeMessages st @ [mkMessage uid User prompt (now e)]"
  let ?t = "mkMessage (Suc uid) Ai [] (now e)"
  let ?ds = "streamDeltas e chunks"
  let ?p = "pump e (Suc uid) chunks ([], st5)"
  let ?t1 = "if ?ds = [] then ?t else patched ?t (concat ?ds)"
  have pre: "\<forall>m\<in>set ?pre. msg_id m \<noteq> Suc uid"
    using fresh uid by (auto simp: mkMessage_def)
  have am5': "activeMessages st5 = ?pre @ [?t]"
    using am5 by simp
  have t: "msg_id ?t = Suc uid"
    by (simp add: mkMessage_def)
  from pump_content [OF pre am5' t, of e chunks "[]"]
  have acc: "fst ?p = concat ?ds" and amp: "activeMessages (snd ?p) = ?pre @ [?t1]"
    by simp_all
  have amt: "activeMessages (showToast ''info'' ''AI response generation stopped.'' (snd ?p))
      = ?pre @ [?t1]"
    by (simp only: activeMessages_showToast amp)
  have t1: "msg_id ?t1 = Suc uid"
    by (simp add: mkMessage_def patched_def)
  have "activeMessages (chatCatch e (Suc uid) True msg ?p) =
      ?pre @ [?t1\<lparr>content := concat ?ds @ stoppedNotice, error := Some True,
                    errorMessage := Some msg\<rparr>]"
    unfolding chatCatch_def acc
    using activeMessages_ulmc [OF amt t1 pre] by simp
  then show ?thesis
    by (simp add: run activeMessages_finalize chatTry_def reply Let_def mkMessage_def
        patched_def)
qed

subsection \<open>Splitting a chunk of whole events\<close>

lemma splitOn_event:
  "nl \<notin> set ev \<Longrightarrow>
   splitOn [nl, nl] acc (ev @ [nl, nl] @ rest) = (acc @ ev) # splitOn [nl, nl] [] rest"
  by (induction ev arbitrary: acc) auto

lemma split_wire:
  "\<forall>ev\<in>set events. nl \<notin> set ev \<Longrightarrow> split (wire events) [nl, nl] = events @ [[]]"
proof (induction events)
  case Nil
  show ?case
    by (simp add: split_def wire_def)
next
  case (Cons ev events)
  then have ev: "nl \<notin> set ev" and IH: "splitOn [nl, nl] [] (wire events) = events @ [[]]"
    by (simp_all add: split_def)
  have "wire (ev # events) = ev @ [nl, nl] @ wire events"
    by (simp add: wire_def)
  then show ?case
    using splitOn_event [OF ev, of "[]" "wire events"] IH by (simp add: split_def)
qed

lemma partDelta_empty: "partDelta e [] = None"
  by (simp add: partDelta_def startsWith_def)

lemma chunkDeltas_wire:
  "\<forall>ev\<in>set events. nl \<notin> set ev \<Longrightarrow>
   chunkDeltas e (wire events) = List.map_filter (partDelta e) events"
  by (simp add: chunkDeltas_def split_wire map_filter_append partDelta_empty)

lemma streamDeltas_wire:
  assumes "\<forall>ev\<in>set (concat groups). nl \<notin> set ev"
  shows "streamDeltas e (map wire groups) = List.map_filter (partDelta e) (concat groups)"
proof -
  have eq: "map (\<lambda>g. chunkDeltas e (wire g)) groups = map (List.map_filter (partDelta e)) groups"
    using assms by (intro map_cong [OF refl]) (auto simp: chunkDeltas_wire)
  show ?thesis
    by (simp only: streamDeltas_def map_map comp_def eq map_filter_concat)
qed

text \<open>\<open>generateImage\<close> rejects on every path: its \<open>finally\<close> block throws first.\<close>

lemma generateImage_rejects:
  "fst (generateImage e p st) =
     Some (TypeError ''Cannot read properties of undefined (reading 'conversations')'')"
proof -
  have "\<not> Chat_has ''STATE''"
    by code_simp
  then show ?thesis
    by (simp add: generateImage_def imageFinally_def Let_def)
qed

section \<open>Streaming text into the target message\<close>

text \<open>
  Claim C1. When a text generation runs with a credential, in a state whose active
  identifier is null or names a stored conversation and whose stored message
  identifiers were drawn from the supply before, and the stream ends normally, then
  the transcript of the active conversation is the old transcript, the user's prompt,
  and an assistant message whose content is the concatenation, in arrival order, of
  the deltas the stream delivered. No other message changes its content.
\<close>

theorem streamed_content_concatenates:
  assumes key: "openrouterKey (settings st) \<noteq> []"
    and valid: "activeConversationId st = None \<or> activeConv st \<noteq> None"
    and fresh: "\<forall>m\<in>set (activeMessages st). msg_id m < nextId st"
    and reply: "chatReply e = Streaming chunks Done"
  shows "map (\<lambda>m. (role m, content m)) (activeMessages (sendChatMessage e prompt st)) =
     map (\<lambda>m. (role m, content m)) (activeMessages st)
     @ [(User, prompt), (Ai, concat (streamDeltas e chunks))]"
proof -
  from sendChatMessage_run [OF key valid, of e prompt] obtain st5 uid where
    run: "sendChatMessage e prompt st = finalize (chatTry e (Suc uid) st5)"
    and uid: "nextId st \<le> uid"
    and am5: "activeMessages st5 =
       activeMessages st @ [mkMessage uid User prompt (now e), mkMessage (Suc uid) Ai [] (now e)]"
    by blast
  let ?pre = "activeMessages st @ [mkMessage uid User prompt (now e)]"
  let ?t = "mkMessage (Suc uid) Ai [] (now e)"
  have pre: "\<forall>m\<in>set ?pre. msg_id m \<noteq> Suc uid"
    using fresh uid by (auto simp: mkMessage_def)
  have am5': "activeMessages st5 = ?pre @ [?t]"
    using am5 by simp
  have t: "msg_id ?t = Suc uid"
    by (simp add: mkMessage_def)
  from pump_content [OF pre am5' t, of e chunks "[]"]
  have "activeMessages (snd (pump e (Suc uid) chunks ([], st5))) =
      ?pre @ [if streamDeltas e chunks = [] then ?t
              else patched ?t (concat (streamDeltas e chunks))]"
    by simp
  then show ?thesis
    by (simp add: run activeMessages_finalize chatTry_def reply Let_def mkMessage_def
        patched_def)
qed

theorem streamed_content_concatenates_witness:
  "streamDeltas env0 [eventHi @ [nl, nl], eventThere @ [nl, nl]] = [''Hi'', '' there'']
   \<and> map (\<lambda>m. (role m, content m)) (activeMessages (sendChatMessage env0 ''Hello'' state0)) =
       [(User, ''Hello''), (Ai, ''Hi there'')]"
proof -
  have key: "openrouterKey (settings state0) \<noteq> []"
    by (simp add: state0_def settings0_def)
  have valid: "activeConversationId state0 = None \<or> activeConv state0 \<noteq> None"
    by (simp add: state0_def)
  have am: "activeMessages state0 = []"
    by code_simp
  have fresh: "\<forall>m\<in>set (activeMessages state0). msg_id m < nextId state0"
    by (simp add: am)
  have reply: "chatReply env0 = Streaming [eventHi @ [nl, nl], eventThere @ [nl, nl]] Done"
    by (simp add: env0_def)
  have ds: "streamDeltas env0 [eventHi @ [nl, nl], eventThere @ [nl, nl]] = [''Hi'', '' there'']"
    by code_simp
  from streamed_content_concatenates [OF key valid fresh reply, of "''Hello''"] show ?thesis
    by (simp add: am ds)
qed

text \<open>
  Claim C2. A generation cancelled after one delta: the stream delivers \<open>Hi\<close>, then the
  read rejects with the abort signal set. The assistant message ends with the content
  \<open>Hi\<close> followed by the notice, as the claim says, but \<open>updateLastMessageContent\<close> is
  called with \<open>isError = true\<close> on this path as on the error path, so the error flag of
  the message is true and its \<open>errorMessage\<close> is the abort error's text.
\<close>

theorem cancelled_message_flagged_error:
  "map (\<lambda>m. (role m, content m, error m, errorMessage m))
     (activeMessages (sendChatMessage abortEnv ''Hello'' state0)) =
   [(User, ''Hello'', None, None),
    (Ai, ''Hi'' @ stoppedNotice, Some True, Some ''The user aborted a request.'')]"
  by code_simp

section \<open>Chunk boundaries\<close>

text \<open>
  The same text in two chunkings: as one chunk it yields the delta \<open>Hi\<close>; cut after
  twenty characters, inside the event, it yields nothing. The first piece starts with
  \<open>data: \<close> but does not parse, the second does not start with \<open>data: \<close>, and nothing
  is carried from one chunk to the next.
\<close>

theorem rechunking_changes_deltas:
  "concat [take 20 eventHi, drop 20 eventHi @ [nl, nl]] = concat [eventHi @ [nl, nl]]
   \<and> streamDeltas env0 [eventHi @ [nl, nl]] = [''Hi'']
   \<and> streamDeltas env0 [take 20 eventHi, drop 20 eventHi @ [nl, nl]] = []"
  by code_simp

text \<open>
  Claim C3, amended. Each chunk is split on the double newline and decoded on its own.
  For events that contain no newline, two groupings of the same event sequence into
  chunks, each chunk made of whole events followed by their delimiter, carry the same
  text and yield the same sequence of deltas.
\<close>

theorem rechunking_at_event_boundaries:
  assumes a: "\<forall>ev\<in>set (concat groups). nl \<notin> set ev"
    and b: "concat groups' = concat groups"
  shows "concat (map wire groups') = concat (map wire groups)
     \<and> streamDeltas e (map wire groups') = streamDeltas e (map wire groups)"
proof -
  have w: "concat (map wire gs) = wire (concat gs)" for gs
    by (induction gs) (simp_all add: wire_def)
  from a b have a': "\<forall>ev\<in>set (concat groups'). nl \<notin> set ev"
    by simp
  show ?thesis
    by (simp add: w b streamDeltas_wire [OF a] streamDeltas_wire [OF a'])
qed

theorem rechunking_at_event_boundaries_witness:
  "concat (map wire [[eventHi], [eventThere]]) = concat (map wire [[eventHi, eventThere]])
   \<and> streamDeltas env0 (map wire [[eventHi], [eventThere]]) =
       streamDeltas env0 (map wire [[eventHi, eventThere]])
   \<and> streamDeltas env0 (map wire [[eventHi, eventThere]]) = [''Hi'', '' there'']"
proof -
  have h: "\<forall>ev\<in>set (concat [[eventHi, eventThere]]). nl \<notin> set ev"
    by (simp add: eventHi_def eventThere_def nl_def)
  have g: "concat [[eventHi], [eventThere]] = concat [[eventHi, eventThere]]"
    by simp
  have v: "streamDeltas env0 (map wire [[eventHi, eventThere]]) = [''Hi'', '' there'']"
    by code_simp
  from rechunking_at_event_boundaries [OF h g, of env0] v show ?thesis
    by simp
qed

section \<open>The send entry point: guards\<close>

text \<open>
  Claim C4. A call of the send entry point made while the generating flag is set is
  rejected with a warning and changes nothing else: the state after the call is the
  state before it with one warning toast added. In particular the abort controller,
  the conversations and their messages, and the requests are the same.
\<close>

theorem handleSendMessage_while_generating:
  "isGenerating st \<Longrightarrow>
   handleSendMessage e st =
     st\<lparr>toasts := toasts st
          @ [(''warning'',
              if trim (chatInput st) = [] then ''Please enter a message or prompt.''
              else ''Please wait for the current generation to complete or stop it.'')]\<rparr>"
  by (simp add: handleSendMessage_def showToast_def)

theorem handleSendMessage_while_generating_witness:
  "isGenerating busyState
   \<and> handleSendMessage env0 busyState =
       busyState\<lparr>toasts :=
         [(''warning'', ''Please wait for the current generation to complete or stop it.'')]\<rparr>
   \<and> abortController (handleSendMessage env0 busyState) = Some False
   \<and> conversations (handleSendMessage env0 busyState) = []"
proof -
  have h: "isGenerating busyState"
    by (simp add: busyState_def)
  have t: "trim (chatInput busyState) \<noteq> []"
    by (simp add: busyState_def state0_def trim_def isWhiteSpace_def)
  from handleSendMessage_while_generating [OF h, of env0] h t show ?thesis
    by (simp add: busyState_def state0_def)
qed

section \<open>Finalization\<close>

text \<open>
  Two sessions that end without their finalization. The text session without a
  credential returns before its \<open>try\<close> block: the flag stays set and the indicator is
  not hidden. The image session reaches its \<open>finally\<close> block, which throws on
  \<open>Chat.STATE\<close> before the reset: the flag stays set, the controller stays in place and
  the indicator is not hidden.
\<close>

theorem session_without_finalization:
  "isGenerating noKeyRunning = True
   \<and> isGenerating (sendChatMessage env0 ''Hello'' noKeyRunning) = True
   \<and> indicatorCalls (sendChatMessage env0 ''Hello'' noKeyRunning) = indicatorCalls noKeyRunning
   \<and> isGenerating (snd (generateImage env0 ''a cat'' imageRunning)) = True
   \<and> abortController (snd (generateImage env0 ''a cat'' imageRunning)) = Some False
   \<and> indicatorCalls (snd (generateImage env0 ''a cat'' imageRunning)) =
       indicatorCalls imageRunning"
  by code_simp

text \<open>
  Claim C5, amended. A text generation session that passes its guards (a credential is
  configured, the active identifier is null or names a stored conversation) runs its
  \<open>finally\<close> block exactly once, whatever the network answers (normal end of stream,
  response not ok, rejected fetch or read, cancellation): the session hides the
  indicator once, which only that block does, and ends with the generating flag false
  and the controller null. A text session that returns at a guard runs no finalization
  and leaves flag, controller and indicator as they were. For a send in chat mode that
  passes the guards of \<open>handleSendMessage\<close>, the \<open>finally\<close> block of \<open>handleSendMessage\<close>
  runs exactly once after the session, also when the input filter throws, and leaves the
  flag false and the controller null.
\<close>

theorem text_session_finalized_once:
  "(openrouterKey (settings st) \<noteq> []
      \<and> (activeConversationId st = None \<or> activeConv st \<noteq> None)
    \<longrightarrow> isGenerating (sendChatMessage e prompt st) = False
        \<and> abortController (sendChatMessage e prompt st) = None
        \<and> indicatorCalls (sendChatMessage e prompt st) = indicatorCalls st @ [False])
   \<and> (openrouterKey (settings st) = []
      \<or> (activeConversationId st \<noteq> None \<and> activeConv st = None)
    \<longrightarrow> isGenerating (sendChatMessage e prompt st) = isGenerating st
        \<and> abortController (sendChatMessage e prompt st) = abortController st
        \<and> indicatorCalls (sendChatMessage e prompt st) = indicatorCalls st)
   \<and> (\<not> isGenerating st \<and> trim (chatInput st) \<noteq> [] \<and> mode st = ChatMode
    \<longrightarrow> isGenerating (handleSendMessage e st) = False
        \<and> abortController (handleSendMessage e st) = None
        \<and> indicatorCalls (handleSendMessage e st) =
            indicatorCalls st
            @ (if sqliPattern e (trim (chatInput st)) then []
               else True #
                 (if openrouterKey (settings st) \<noteq> []
                     \<and> (activeConversationId st = None \<or> activeConv st \<noteq> None)
                  then [False] else []))
            @ [False])"
proof (intro conjI impI)
  assume a: "openrouterKey (settings st) \<noteq> []
      \<and> (activeConversationId st = None \<or> activeConv st \<noteq> None)"
  then have key: "openrouterKey (settings st) \<noteq> []"
    and valid: "activeConversationId st = None \<or> activeConv st \<noteq> None"
    by simp_all
  show "isGenerating (sendChatMessage e prompt st) = False"
    by (rule sendChatMessage_finalizes [OF key valid])
  show "abortController (sendChatMessage e prompt st) = None"
    by (rule sendChatMessage_finalizes [OF key valid])
  show "indicatorCalls (sendChatMessage e prompt st) = indicatorCalls st @ [False]"
    by (rule sendChatMessage_finalizes [OF key valid])
next
  assume b: "openrouterKey (settings st) = []
      \<or> (activeConversationId st \<noteq> None \<and> activeConv st = None)"
  show "isGenerating (sendChatMessage e prompt st) = isGenerating st"
    by (rule sendChatMessage_early_return [OF b])
  show "abortController (sendChatMessage e prompt st) = abortController st"
    by (rule sendChatMessage_early_return [OF b])
  show "indicatorCalls (sendChatMessage e prompt st) = indicatorCalls st"
    by (rule sendChatMessage_early_return [OF b])
next
  assume c: "\<not> isGenerating st \<and> trim (chatInput st) \<noteq> [] \<and> mode st = ChatMode"
  then have h: "trim (chatInput st) \<noteq> []" "\<not> isGenerating st" and m: "mode st = ChatMode"
    by simp_all
  show "isGenerating (handleSendMessage e st) = False"
    by (simp add: handleSendMessage_def Let_def h finalize_def showTypingIndicator_def)
  show "abortController (handleSendMessage e st) = None"
    by (simp add: handleSendMessage_def Let_def h finalize_def)
  let ?p = "trim (chatInput st)"
  let ?st1 = "showTypingIndicator True (st\<lparr>chatInput := [], isGenerating := True\<rparr>)"
  let ?guards = "openrouterKey (settings st) \<noteq> []
      \<and> (activeConversationId st = None \<or> activeConv st \<noteq> None)"
  have s0: "activeConv ?st1 = activeConv st"
    by simp
  have s1: "settings ?st1 = settings st" "activeConversationId ?st1 = activeConversationId st"
    "activeConv ?st1 = activeConv st" "indicatorCalls ?st1 = indicatorCalls st @ [True]"
    "mode ?st1 = ChatMode"
    by (simp_all add: m s0) (simp_all add: showTypingIndicator_def m)
  have session: "indicatorCalls (sendChatMessage e q ?st1) =
      indicatorCalls st @ True # (if ?guards then [False] else [])" for q
  proof (cases ?guards)
    case True
    then have "openrouterKey (settings ?st1) \<noteq> []"
      and "activeConversationId ?st1 = None \<or> activeConv ?st1 \<noteq> None"
      by (simp_all only: s1) simp_all
    from sendChatMessage_finalizes(3) [OF this, of e q] True show ?thesis
      by (simp add: s1)
  next
    case False
    then have "openrouterKey (settings ?st1) = []
        \<or> (activeConversationId ?st1 \<noteq> None \<and> activeConv ?st1 = None)"
      by (simp only: s1) auto
    from sendChatMessage_early_return(3) [OF this, of e q] False show ?thesis
      by (simp add: s1)
  qed
  show "indicatorCalls (handleSendMessage e st) =
      indicatorCalls st
      @ (if sqliPattern e ?p then []
         else True # (if ?guards then [False] else []))
      @ [False]"
  proof (cases "sqliPattern e ?p")
    case True
    then show ?thesis
      by (simp add: handleSendMessage_def Let_def h filterSQLi_def finalize_def
          showTypingIndicator_def sendCatch_frame)
  next
    case False
    have hs: "handleSendMessage e st = finalize (sendChatMessage e (escapeHTML e ?p) ?st1)"
      using False s1(5) by (simp add: handleSendMessage_def Let_def h filterSQLi_def)
    show ?thesis
      unfolding hs using False by (simp add: finalize_fields session)
  qed
qed

theorem text_session_finalized_once_witness:
  "isGenerating chatRunning = True \<and> indicatorCalls chatRunning = [True]
   \<and> isGenerating (sendChatMessage env0 ''Hello'' chatRunning) = False
   \<and> abortController (sendChatMessage env0 ''Hello'' chatRunning) = None
   \<and> indicatorCalls (sendChatMessage env0 ''Hello'' chatRunning) = [True, False]
   \<and> isGenerating (sendChatMessage abortEnv ''Hello'' chatRunning) = False
   \<and> abortController (sendChatMessage abortEnv ''Hello'' chatRunning) = None
   \<and> indicatorCalls (sendChatMessage abortEnv ''Hello'' chatRunning) = [True, False]
   \<and> isGenerating (sendChatMessage env0 ''Hello'' noKeyRunning) = True
   \<and> indicatorCalls (sendChatMessage env0 ''Hello'' noKeyRunning) = [True]
   \<and> isGenerating (handleSendMessage env0 state0) = False
   \<and> abortController (handleSendMessage env0 state0) = None
   \<and> indicatorCalls (handleSendMessage env0 state0) = [True, False, False]"
proof -
  have run: "openrouterKey (settings chatRunning) \<noteq> []"
    "activeConversationId chatRunning = None"
    "isGenerating chatRunning = True" "indicatorCalls chatRunning = [True]"
    by (simp_all add: chatRunning_def showTypingIndicator_def state0_def settings0_def)
  have nokey: "openrouterKey (settings noKeyRunning) = []"
    "isGenerating noKeyRunning = True" "indicatorCalls noKeyRunning = [True]"
    by (simp_all add: noKeyRunning_def chatRunning_def showTypingIndicator_def state0_def)
  have idle: "\<not> isGenerating state0 \<and> trim (chatInput state0) \<noteq> [] \<and> mode state0 = ChatMode"
    "openrouterKey (settings state0) \<noteq> []" "activeConversationId state0 = None"
    "indicatorCalls state0 = []" "\<not> sqliPattern env0 (trim (chatInput state0))"
    by (simp_all add: state0_def settings0_def env0_def trim_def isWhiteSpace_def)
  from text_session_finalized_once [of chatRunning env0 "''Hello''"]
    text_session_finalized_once [of chatRunning abortEnv "''Hello''"]
    text_session_finalized_once [of noKeyRunning env0 "''Hello''"]
    text_session_finalized_once [of state0 env0 "''Hello''"]
    run nokey idle
  show ?thesis
    by simp
qed

section \<open>Image generation\<close>

text \<open>
  Claim C6. An image prompt with Pollinations selected and a response of status 500.
  The fallback URL is built, but the \<open>finally\<close> block of \<open>generateImage\<close> reads
  \<open>Chat.STATE\<close>, which \<open>chat.js\<close> does not export, and throws before it replaces the
  placeholder: the target message keeps its type \<open>text\<close>, its content
  \<open>Generating image...\<close> and no error flag, and the last toast is the \<open>TypeError\<close>.
\<close>

theorem pollinations_failure_not_finalized:
  "map (\<lambda>m. (role m, mtype m, content m, error m))
     (activeMessages (handleSendMessage env0 imageState)) =
   [(User, Text, ''a cat'', None), (Ai, Text, ''Generating image...'', None)]
   \<and> generateWithLoremFlickr env0 = ''https://loremflickr.com/1024/1024/abstract,random''
   \<and> toasts (handleSendMessage env0 imageState) =
     [(''info'', ''Generating image...''),
      (''error'', ''Image generation failed: Pollinations.ai returned status 500''),
      (''info'', ''Pollinations.ai failed, falling back to LoremFlickr...''),
      (''error'', ''Cannot read properties of undefined (reading 'conversations')'')]"
  by code_simp

text \<open>
  Claim C7. An image prompt with OpenRouter selected and no credential. No request is
  issued and no fallback is tried, as the claim says, but the \<open>finally\<close> block of
  \<open>generateImage\<close> throws on \<open>Chat.STATE\<close> before it replaces the placeholder: the
  target message keeps its content \<open>Generating image...\<close> and carries neither an error
  flag nor an error detail.
\<close>

theorem openrouter_unconfigured_not_finalized:
  "map (\<lambda>m. (role m, mtype m, content m, error m, errorMessage m))
     (activeMessages (handleSendMessage env0 openrouterState)) =
   [(User, Text, ''a cat'', None, None), (Ai, Text, ''Generating image...'', None, None)]
   \<and> requests (handleSendMessage env0 openrouterState) = []
   \<and> toasts (handleSendMessage env0 openrouterState) =
     [(''info'', ''Generating image...''),
      (''error'',
       ''Image generation failed: OpenRouter API key is not configured for image generation.''),
      (''error'', ''Cannot read properties of undefined (reading 'conversations')'')]"
  by code_simp

section \<open>Regeneration\<close>

text \<open>
  Claim C8. From the idle state, on an active conversation whose last message is the
  assistant's, whose message identifiers are distinct and which holds a user text
  message, \<open>regenerateResponse\<close> removes the last message and nothing else, and runs
  \<open>sendChatMessage\<close> on the content of the last user text message, between showing
  and hiding the typing indicator. On a conversation of fewer than two messages (or
  with no active conversation) it only shows a toast.
\<close>

theorem regenerateResponse_removes_last:
  "(\<not> isGenerating st \<and> activeConv st = Some c \<and> messages c \<noteq> []
      \<and> role (last (messages c)) = Ai \<and> distinct (map msg_id (messages c))
      \<and> find (\<lambda>m. role m = User \<and> mtype m = Text) (rev (messages c)) = Some u
    \<longrightarrow> regenerateResponse e st =
        showTypingIndicator False
          ((sendChatMessage e (content u)
              (showTypingIndicator True
                 ((showToast ''info'' ''Regenerating AI response...''
                     (updActive
                        (\<lambda>c. c\<lparr>messages := butlast (messages c), lastUpdated := now e\<rparr>) st))
                  \<lparr>isGenerating := True\<rparr>)))
           \<lparr>isGenerating := False\<rparr>))
   \<and> (length (activeMessages st) < 2
    \<longrightarrow> regenerateResponse e st =
        showToast (if isGenerating st then ''warning'' else ''info'')
          (if isGenerating st
           then ''Please wait for the current generation to complete or stop it.''
           else ''No previous AI response to regenerate.'') st)"
proof (intro conjI impI)
  assume h: "\<not> isGenerating st \<and> activeConv st = Some c \<and> messages c \<noteq> []
      \<and> role (last (messages c)) = Ai \<and> distinct (map msg_id (messages c))
      \<and> find (\<lambda>m. role m = User \<and> mtype m = Text) (rev (messages c)) = Some u"
  then have ne: "messages c \<noteq> []" and la: "role (last (messages c)) = Ai"
    and u: "find (\<lambda>m. role m = User \<and> mtype m = Text) (rev (messages c)) = Some u"
    and d: "distinct (map msg_id (messages c))" and c: "activeConv st = Some c"
    and g: "\<not> isGenerating st"
    by simp_all
  have len: "\<not> length (messages c) < 2"
  proof
    assume "length (messages c) < 2"
    with ne obtain x where x: "messages c = [x]"
      by (cases "messages c") auto
    with u la show False
      by (auto split: if_splits)
  qed
  have fi: "findIndex (\<lambda>msg. msg_id msg = msg_id (last (messages c)) \<and> role msg = Ai) (messages c)
      = Some (length (butlast (messages c)))"
    by (rule findIndex_last [where Q = "\<lambda>m. role m = Ai" and k = msg_id, OF ne d la])
  have upd: "updActive (\<lambda>c'. c'\<lparr>messages := splice1 (length (butlast (messages c))) (messages c'),
                                lastUpdated := now e\<rparr>) st
      = updActive (\<lambda>c. c\<lparr>messages := butlast (messages c), lastUpdated := now e\<rparr>) st"
    by (rule updActive_cong [OF c]) (simp add: splice1_last [OF ne] del: length_butlast)
  show "regenerateResponse e st =
        showTypingIndicator False
          ((sendChatMessage e (content u)
              (showTypingIndicator True
                 ((showToast ''info'' ''Regenerating AI response...''
                     (updActive
                        (\<lambda>c. c\<lparr>messages := butlast (messages c), lastUpdated := now e\<rparr>) st))
                  \<lparr>isGenerating := True\<rparr>)))
           \<lparr>isGenerating := False\<rparr>)"
    by (simp add: regenerateResponse_def g c len u fi upd Let_def del: length_butlast)
next
  assume few: "length (activeMessages st) < 2"
  show "regenerateResponse e st =
        showToast (if isGenerating st then ''warning'' else ''info'')
          (if isGenerating st
           then ''Please wait for the current generation to complete or stop it.''
           else ''No previous AI response to regenerate.'') st"
  proof (cases "activeConv st")
    case None
    then show ?thesis
      by (simp add: regenerateResponse_def)
  next
    case (Some c')
    with few have "length (messages c') < 2"
      by (simp add: activeMessages_def)
    with Some show ?thesis
      by (simp add: regenerateResponse_def)
  qed
qed

theorem regenerateResponse_removes_last_witness:
  "map (\<lambda>m. (msg_id m, role m, content m)) (activeMessages chattedState) =
     [(0, User, ''Hello''), (2, Ai, ''https://loremflickr.com/1024/1024/abstract,random''),
      (3, User, ''Hi''), (4, Ai, ''Hi there'')]
   \<and> regenerateResponse env0 chattedState =
       showTypingIndicator False
         ((sendChatMessage env0 ''Hi''
             (showTypingIndicator True
                ((showToast ''info'' ''Regenerating AI response...''
                    (updActive
                       (\<lambda>c. c\<lparr>messages := butlast (messages c), lastUpdated := now env0\<rparr>)
                       chattedState))
                 \<lparr>isGenerating := True\<rparr>)))
          \<lparr>isGenerating := False\<rparr>)
   \<and> map (\<lambda>m. (msg_id m, role m, content m))
       (activeMessages (regenerateResponse env0 chattedState)) =
     [(0, User, ''Hello''), (2, Ai, ''https://loremflickr.com/1024/1024/abstract,random''),
      (3, User, ''Hi''), (5, User, ''Hi''), (6, Ai, ''Hi there'')]
   \<and> length (activeMessages state0) = 0
   \<and> regenerateResponse env0 state0 =
       showToast ''info'' ''No previous AI response to regenerate.'' state0"
proof -
  have ac: "activeConv chattedState = Some conv0"
    by code_simp
  have h: "\<not> isGenerating chattedState \<and> activeConv chattedState = Some conv0
      \<and> messages conv0 \<noteq> [] \<and> role (last (messages conv0)) = Ai
      \<and> distinct (map msg_id (messages conv0))
      \<and> find (\<lambda>m. role m = User \<and> mtype m = Text) (rev (messages conv0))
          = Some (mkMessage 3 User ''Hi'' 0)"
    by (simp add: ac) (simp add: chattedState_def state0_def conv0_def mkMessage_def)
  have am: "map (\<lambda>m. (msg_id m, role m, content m)) (activeMessages chattedState) =
     [(0, User, ''Hello''), (2, Ai, ''https://loremflickr.com/1024/1024/abstract,random''),
      (3, User, ''Hi''), (4, Ai, ''Hi there'')]"
    by (simp add: activeMessages_def ac conv0_def mkMessage_def)
  have ev: "map (\<lambda>m. (msg_id m, role m, content m))
       (activeMessages (regenerateResponse env0 chattedState)) =
     [(0, User, ''Hello''), (2, Ai, ''https://loremflickr.com/1024/1024/abstract,random''),
      (3, User, ''Hi''), (5, User, ''Hi''), (6, Ai, ''Hi there'')]"
    by code_simp
  have few: "length (activeMessages state0) = 0" "\<not> isGenerating state0"
    by code_simp+
  from regenerateResponse_removes_last [of chattedState conv0 "mkMessage 3 User ''Hi'' 0" env0]
    regenerateResponse_removes_last [of state0 _ _ env0] h am ev few
  show ?thesis
    by (simp add: mkMessage_def)
qed

section \<open>The outbound request\<close>

text \<open>
  Claim C9. A text generation with a credential, in a state whose active identifier is
  null or names a stored conversation, issues exactly one request, and its message
  sequence is: the system message; the text messages of the active conversation in
  stored order as role and content pairs, image messages left out; the prompt as a
  user turn, which is the message just appended to the conversation; and the prompt
  once more as the final user turn.
\<close>

theorem outbound_messages:
  assumes key: "openrouterKey (settings st) \<noteq> []"
    and valid: "activeConversationId st = None \<or> activeConv st \<noteq> None"
  shows "requests (sendChatMessage e prompt st) =
     requests st @
     [ChatCompletion (modelId (settings st))
        ([(''system'', systemPrompt (settings st))]
         @ map (\<lambda>m. (roleName (role m), content m))
             (filter (\<lambda>m. mtype m = Text) (activeMessages st))
         @ [(''user'', prompt), (''user'', prompt)])]"
proof -
  from sendChatMessage_run [OF key valid, of e prompt] obtain st5 uid where
    run: "sendChatMessage e prompt st = finalize (chatTry e (Suc uid) st5)"
    and rq: "requests st5 =
       requests st @
       [ChatCompletion (modelId (settings st))
          ([(''system'', systemPrompt (settings st))]
           @ map (\<lambda>m. (roleName (role m), content m))
               (filter (\<lambda>m. mtype m = Text) (activeMessages st))
           @ [(''user'', prompt), (''user'', prompt)])]"
    by blast
  show ?thesis
    by (simp add: run finalize_def showTypingIndicator_def requests_chatTry rq)
qed

theorem outbound_messages_witness:
  "requests (sendChatMessage env0 ''More'' chattedState) =
     [ChatCompletion ''openai/gpt-4o-mini''
        [(''system'', ''You are JavaGoat.''), (''user'', ''Hello''), (''user'', ''Hi''),
         (''ai'', ''Hi there''), (''user'', ''More''), (''user'', ''More'')]]"
proof -
  have key: "openrouterKey (settings chattedState) \<noteq> []"
    by (simp add: chattedState_def state0_def settings0_def)
  have ac: "activeConv chattedState = Some conv0"
    by code_simp
  have valid: "activeConversationId chattedState = None \<or> activeConv chattedState \<noteq> None"
    by (simp add: ac)
  have am: "activeMessages chattedState = messages conv0"
    by (simp add: activeMessages_def ac)
  have s: "settings chattedState = settings0" "requests chattedState = []"
    by (simp_all add: chattedState_def state0_def)
  from outbound_messages [OF key valid, of env0 "''More''"] show ?thesis
    by (simp add: am s conv0_def settings0_def mkMessage_def roleName_def)
qed

section \<open>Blank input\<close>

text \<open>
  Claim C10. A call of the send entry point whose input is empty or holds only white
  space does nothing but show a warning: the state after the call is the state before
  it with one warning toast added, so no conversation or message is created or changed,
  no request is issued, no abort controller is created and the generating flag keeps
  its value.
\<close>

theorem handleSendMessage_blank_input:
  "\<forall>c\<in>set (chatInput st). isWhiteSpace c \<Longrightarrow>
   handleSendMessage e st =
     st\<lparr>toasts := toasts st @ [(''warning'', ''Please enter a message or prompt.'')]\<rparr>"
  by (simp add: handleSendMessage_def trim_blank showToast_def)

theorem handleSendMessage_blank_input_witness:
  "list_all isWhiteSpace (chatInput blankState)
   \<and> handleSendMessage env0 blankState =
       blankState\<lparr>toasts := toasts blankState
                    @ [(''warning'', ''Please enter a message or prompt.'')]\<rparr>
   \<and> isGenerating (handleSendMessage env0 blankState) = False
   \<and> requests (handleSendMessage env0 blankState) = []
   \<and> conversations (handleSendMessage env0 blankState) = []
   \<and> abortController (handleSendMessage env0 blankState) = None"
proof -
  have h: "\<forall>c\<in>set (chatInput blankState). isWhiteSpace c"
    by (simp add: blankState_def state0_def isWhiteSpace_def nl_def)
  from handleSendMessage_blank_input [OF h, of env0] h show ?thesis
    by (simp add: blankState_def state0_def list_all_iff)
qed

end
